theory Spec2Isabelle
  imports Main "HOL-Library.Word"
begin

section \<open>JavaScript values used by the client\<close>

text \<open>
  A JavaScript string is a sequence of 16-bit code units. A string is truthy exactly when
  it is not empty. String literals of the source are written with \<open>lit\<close>.
\<close>

type_synonym js_string = "16 word list"

definition lit :: "string \<Rightarrow> js_string" where
  "lit s = map of_char s"

text \<open>
  \<open>String.prototype.trim\<close> removes leading and trailing white space and line terminators
  (ECMAScript \<open>WhiteSpace\<close> and \<open>LineTerminator\<close>).
\<close>

definition is_ws :: "16 word \<Rightarrow> bool" where
  "is_ws c \<longleftrightarrow>
     c = 0x0009 \<or> c = 0x000A \<or> c = 0x000B \<or> c = 0x000C \<or> c = 0x000D \<or> c = 0x0020 \<or>
     c = 0x00A0 \<or> c = 0x1680 \<or> (0x2000 \<le> c \<and> c \<le> 0x200A) \<or> c = 0x2028 \<or>
     c = 0x2029 \<or> c = 0x202F \<or> c = 0x205F \<or> c = 0x3000 \<or> c = 0xFEFF"

definition trimStart :: "js_string \<Rightarrow> js_string" where
  "trimStart s = dropWhile is_ws s"

definition trim :: "js_string \<Rightarrow> js_string" where
  "trim s = rev (dropWhile is_ws (rev (dropWhile is_ws s)))"

text \<open>
  The numbers the client handles are integers or \<open>NaN\<close> (the result of \<open>parseInt\<close>
  on a string without digits).
\<close>

datatype js_number = NaN | Num int

section \<open>Data exchanged with the HTTP service\<close>

record js_file =
  file_name :: js_string
  file_type :: js_string

record upload_data =
  ud_text :: js_string

record summary_data =
  sd_summary :: js_string
  original_length :: int
  summary_length :: int

record flashcard =
  question :: js_string
  answer :: js_string

record flashcards_data =
  fd_flashcards :: "flashcard list"
  total_count :: int

text \<open>
  The error a rejected request hands to \<open>onError\<close>: \<open>error.response\<close> is absent when no
  response arrived, \<open>response.data\<close> is absent when the body is empty, and \<open>data.detail\<close> is
  absent when the body has no such field.
\<close>

record error_body =
  detail :: "js_string option"

record http_response =
  data :: "error_body option"

record axios_error =
  response :: "http_response option"

text \<open>The optional chain \<open>error.response?.data?.detail\<close>.\<close>

definition response_data_detail :: "axios_error \<Rightarrow> js_string option" where
  "response_data_detail err =
     (case response err of
        None \<Rightarrow> None
      | Some r \<Rightarrow> (case data r of None \<Rightarrow> None | Some d \<Rightarrow> detail d))"

text \<open>\<open>a || b\<close> on an optional string: \<open>b\<close> when \<open>a\<close> is undefined or the empty string.\<close>

definition or_else :: "js_string option \<Rightarrow> js_string \<Rightarrow> js_string" where
  "or_else a b = (case a of None \<Rightarrow> b | Some v \<Rightarrow> if v \<noteq> [] then v else b)"

section \<open>App.jsx: state and mutation callbacks\<close>

record app_state =
  extractedText :: js_string
  summary :: "summary_data option"
  flashcards :: "flashcards_data option"
  error :: "js_string option"

definition app_init :: app_state where
  "app_init = \<lparr>extractedText = [], summary = None, flashcards = None, error = None\<rparr>"

definition uploadMutation_onSuccess :: "upload_data \<Rightarrow> app_state \<Rightarrow> app_state" where
  "uploadMutation_onSuccess d s =
     s\<lparr>extractedText := ud_text d, summary := None, flashcards := None, error := None\<rparr>"

definition uploadMutation_onError :: "axios_error \<Rightarrow> app_state \<Rightarrow> app_state" where
  "uploadMutation_onError err s =
     s\<lparr>error := Some (or_else (response_data_detail err) (lit ''Failed to process content''))\<rparr>"

definition summaryMutation_onSuccess :: "summary_data \<Rightarrow> app_state \<Rightarrow> app_state" where
  "summaryMutation_onSuccess d s = s\<lparr>summary := Some d, error := None\<rparr>"

definition summaryMutation_onError :: "axios_error \<Rightarrow> app_state \<Rightarrow> app_state" where
  "summaryMutation_onError err s =
     s\<lparr>error := Some (or_else (response_data_detail err) (lit ''Failed to generate summary''))\<rparr>"

definition flashcardsMutation_onSuccess :: "flashcards_data \<Rightarrow> app_state \<Rightarrow> app_state" where
  "flashcardsMutation_onSuccess d s = s\<lparr>flashcards := Some d, error := None\<rparr>"

definition flashcardsMutation_onError :: "axios_error \<Rightarrow> app_state \<Rightarrow> app_state" where
  "flashcardsMutation_onError err s =
     s\<lparr>error := Some (or_else (response_data_detail err) (lit ''Failed to generate flashcards''))\<rparr>"

definition clearError :: "app_state \<Rightarrow> app_state" where
  "clearError s = s\<lparr>error := None\<rparr>"

section \<open>Numbers and strings: \<open>String(n)\<close> and \<open>parseInt\<close>\<close>

definition digit_char :: "nat \<Rightarrow> 16 word" where
  "digit_char d = of_nat (48 + d)"

fun nat_toString :: "nat \<Rightarrow> js_string" where
  "nat_toString n =
     (if n < 10 then [digit_char n] else nat_toString (n div 10) @ [digit_char (n mod 10)])"

declare nat_toString.simps [simp del]

text \<open>
  \<open>String(n)\<close>, which is also how a template literal and a DOM attribute render a number.
  (Plain decimal digits here; JavaScript switches to exponent form from \<open>10^21\<close> on.)
\<close>

fun number_toString :: "js_number \<Rightarrow> js_string" where
  "number_toString NaN = lit ''NaN''"
| "number_toString (Num i) =
     (if i < 0 then lit ''-'' @ nat_toString (nat (- i)) else nat_toString (nat i))"

text \<open>
  \<open>parseInt(s)\<close> without a radix: skip leading white space, read an optional sign, take
  radix 16 after a \<open>0x\<close> or \<open>0X\<close> prefix and radix 10 otherwise, and read the longest prefix
  of digits; \<open>NaN\<close> when there is none. (The result is exact here; JavaScript rounds
  integers beyond \<open>2^53\<close> to the nearest double.)
\<close>

definition digit_val :: "16 word \<Rightarrow> nat option" where
  "digit_val c =
     (if 0x30 \<le> c \<and> c \<le> 0x39 then Some (unat c - 48)
      else if 0x61 \<le> c \<and> c \<le> 0x7A then Some (unat c - 87)
      else if 0x41 \<le> c \<and> c \<le> 0x5A then Some (unat c - 55)
      else None)"

definition is_digit :: "nat \<Rightarrow> 16 word \<Rightarrow> bool" where
  "is_digit R c = (case digit_val c of None \<Rightarrow> False | Some v \<Rightarrow> v < R)"

definition digits_value :: "nat \<Rightarrow> js_string \<Rightarrow> nat" where
  "digits_value R Z =
     foldl (\<lambda>acc c. case digit_val c of None \<Rightarrow> acc | Some v \<Rightarrow> acc * R + v) 0 Z"

definition strip_sign :: "js_string \<Rightarrow> int \<times> js_string" where
  "strip_sign S =
     (case S of
        [] \<Rightarrow> (1, S)
      | c # r \<Rightarrow> if c = 0x2D then (- 1, r) else if c = 0x2B then (1, r) else (1, S))"

definition strip_prefix :: "js_string \<Rightarrow> nat \<times> js_string" where
  "strip_prefix S =
     (case S of
        a # b # r \<Rightarrow> if a = 0x30 \<and> (b = 0x78 \<or> b = 0x58) then (16, r) else (10, S)
      | _ \<Rightarrow> (10, S))"

definition parseInt :: "js_string \<Rightarrow> js_number" where
  "parseInt s =
     (let (sign, S1) = strip_sign (trimStart s);
          (R, S2) = strip_prefix S1;
          Z = takeWhile (is_digit R) S2
      in if Z = [] then NaN else Num (sign * int (digits_value R Z)))"

section \<open>api.js: the requests the client sends\<close>

datatype request_body =
    FormData "js_file option" "js_string option"
  | Json js_string

text \<open>Every request is a POST; \<open>req_url\<close> is the path with its query string.\<close>

record http_request =
  req_url :: js_string
  req_body :: request_body

text \<open>The path of a URL: the part before the query string.\<close>

definition url_path :: "js_string \<Rightarrow> js_string" where
  "url_path u = takeWhile (\<lambda>c. c \<noteq> 0x3F) u"

definition uploadContent :: "js_file option \<Rightarrow> js_string option \<Rightarrow> http_request" where
  "uploadContent f t =
     \<lparr>req_url = lit ''/upload'',
      req_body = FormData f (case t of None \<Rightarrow> None | Some v \<Rightarrow> if v \<noteq> [] then Some v else None)\<rparr>"

definition generateSummary :: "js_string \<Rightarrow> http_request" where
  "generateSummary t = \<lparr>req_url = lit ''/summarize'', req_body = Json t\<rparr>"

text \<open>The parameter \<open>numCards\<close> defaults to 5 when the caller passes none.\<close>

definition generateFlashcards :: "js_string \<Rightarrow> js_number option \<Rightarrow> http_request" where
  "generateFlashcards t numCards =
     \<lparr>req_url = lit ''/flashcards?num_cards='' @
                 number_toString (case numCards of None \<Rightarrow> Num 5 | Some n \<Rightarrow> n),
      req_body = Json t\<rparr>"

section \<open>App.jsx: handlers\<close>

text \<open>
  Each handler returns the requests that its call of \<open>mutate\<close> sends: \<open>mutate\<close> runs the
  mutation function, which calls the API service once.
\<close>

definition handleFileSelect :: "js_file \<Rightarrow> http_request list" where
  "handleFileSelect f = [uploadContent (Some f) None]"

definition handleTextInput :: "js_string \<Rightarrow> http_request list" where
  "handleTextInput t = [uploadContent None (Some t)]"

definition handleGenerateSummary :: "app_state \<Rightarrow> http_request list" where
  "handleGenerateSummary s =
     (if extractedText s \<noteq> [] then [generateSummary (extractedText s)] else [])"

definition handleGenerateFlashcards :: "app_state \<Rightarrow> js_number \<Rightarrow> http_request list" where
  "handleGenerateFlashcards s numCards =
     (if extractedText s \<noteq> [] then [generateFlashcards (extractedText s) (Some numCards)]
      else [])"

section \<open>FileUpload.jsx\<close>

datatype tab = Pdf | Text

record FileUpload_state =
  activeTab :: tab
  textInput :: js_string
  selectedFile :: "js_file option"

definition FileUpload_init :: FileUpload_state where
  "FileUpload_init = \<lparr>activeTab = Pdf, textInput = [], selectedFile = None\<rparr>"

text \<open>What a handler of the component does besides updating the component's state.\<close>

datatype fu_effect =
    OnFileSelect js_file
  | OnTextInput js_string
  | Alert js_string
  | ResetInputValue
  | PreventDefault

text \<open>\<open>files[0]\<close> of a file list: undefined when the list is empty.\<close>

definition first_file :: "js_file list \<Rightarrow> js_file option" where
  "first_file files = (case files of [] \<Rightarrow> None | f # _ \<Rightarrow> Some f)"

definition handleFileChange ::
  "js_file list \<Rightarrow> FileUpload_state \<Rightarrow> FileUpload_state \<times> fu_effect list" where
  "handleFileChange files s =
     (case first_file files of
        None \<Rightarrow> (s, [])
      | Some f \<Rightarrow>
          if file_type f = lit ''application/pdf''
          then (s\<lparr>selectedFile := Some f\<rparr>, [OnFileSelect f])
          else (s, [Alert (lit ''Please select a PDF file''), ResetInputValue]))"

definition handleTextSubmit :: "FileUpload_state \<Rightarrow> fu_effect list" where
  "handleTextSubmit s = (if trim (textInput s) \<noteq> [] then [OnTextInput (textInput s)] else [])"

definition handleDrop ::
  "js_file list \<Rightarrow> FileUpload_state \<Rightarrow> FileUpload_state \<times> fu_effect list" where
  "handleDrop files s =
     (case first_file files of
        None \<Rightarrow> (s, [PreventDefault, Alert (lit ''Please drop a PDF file'')])
      | Some f \<Rightarrow>
          if file_type f = lit ''application/pdf''
          then (s\<lparr>selectedFile := Some f\<rparr>, [PreventDefault, OnFileSelect f])
          else (s, [PreventDefault, Alert (lit ''Please drop a PDF file'')]))"

section \<open>The rendered controls\<close>

text \<open>
  A component renders controls; each is listed with the value of its \<open>disabled\<close>
  attribute. The drop zone is a \<open>div\<close> and the tab buttons and the button that closes the
  error banner carry no \<open>disabled\<close> attribute, so they are never disabled. A component that
  returns \<open>null\<close> renders nothing.
\<close>

datatype control =
    TabPdfButton
  | TabTextButton
  | DropZone
  | FileInput
  | TextArea
  | SubmitTextButton
  | GenerateSummaryButton
  | NumCardsSelect
  | GenerateFlashcardsButton
  | ClearErrorButton

type_synonym view = "(control \<times> bool) list"

definition FileUpload_render :: "bool \<Rightarrow> FileUpload_state \<Rightarrow> view" where
  "FileUpload_render isLoading s =
     [(TabPdfButton, False), (TabTextButton, False)] @
     (if activeTab s = Pdf then [(DropZone, False), (FileInput, isLoading)] else []) @
     (if activeTab s = Text
      then [(TextArea, isLoading), (SubmitTextButton, trim (textInput s) = [] \<or> isLoading)]
      else [])"

definition SummarySection_render :: "js_string \<Rightarrow> bool \<Rightarrow> view" where
  "SummarySection_render extracted isLoading =
     (if extracted = [] then [] else [(GenerateSummaryButton, isLoading)])"

text \<open>The values the card-count selector offers, and the state \<open>numCards\<close> starts with.\<close>

definition select_options :: "int list" where
  "select_options = [3, 4, 5, 6, 7, 8, 9, 10]"

definition option_values :: "js_string list" where
  "option_values = map (\<lambda>num. number_toString (Num num)) select_options"

definition numCards_init :: js_number where
  "numCards_init = Num 5"

definition FlashcardsSection_render :: "js_string \<Rightarrow> bool \<Rightarrow> view" where
  "FlashcardsSection_render extracted isLoading =
     (if extracted = [] then []
      else [(NumCardsSelect, isLoading), (GenerateFlashcardsButton, isLoading)])"

text \<open>The \<open>isLoading\<close> flags of the three mutations, as the mutation library reports them.\<close>

record mutations =
  upload_isLoading :: bool
  summary_isLoading :: bool
  flashcards_isLoading :: bool

record client_state =
  app :: app_state
  fu :: FileUpload_state
  numCards :: js_number

definition client_init :: client_state where
  "client_init = \<lparr>app = app_init, fu = FileUpload_init, numCards = numCards_init\<rparr>"

text \<open>The banner is rendered when \<open>error\<close> is truthy: not null and not the empty string.\<close>

definition banner :: "app_state \<Rightarrow> js_string option" where
  "banner s = (case error s of None \<Rightarrow> None | Some e \<Rightarrow> if e \<noteq> [] then Some e else None)"

definition App_render :: "mutations \<Rightarrow> client_state \<Rightarrow> view" where
  "App_render m s =
     (if banner (app s) \<noteq> None then [(ClearErrorButton, False)] else []) @
     FileUpload_render (upload_isLoading m) (fu s) @
     SummarySection_render (extractedText (app s)) (summary_isLoading m) @
     FlashcardsSection_render (extractedText (app s)) (flashcards_isLoading m)"

section \<open>Events\<close>

text \<open>
  A user event arrives at a control: a click, a drop of files on the drop zone, a choice of
  files in the file input, typing in the text area, or choosing an option of the selector.
  The browser delivers it only when the control is rendered and not disabled.
\<close>

datatype dom_event =
    Click control
  | Drop "js_file list"
  | Change_files "js_file list"
  | Input_text js_string
  | Change_select js_string

fun target :: "dom_event \<Rightarrow> control" where
  "target (Click c) = c"
| "target (Drop _) = DropZone"
| "target (Change_files _) = FileInput"
| "target (Input_text _) = TextArea"
| "target (Change_select _) = NumCardsSelect"

definition delivered :: "view \<Rightarrow> dom_event \<Rightarrow> bool" where
  "delivered v ev \<longleftrightarrow> (target ev, False) \<in> set v"

text \<open>\<open>App\<close> passes its handlers to \<open>FileUpload\<close> as \<open>onFileSelect\<close> and \<open>onTextInput\<close>.\<close>

fun FileUpload_callback :: "fu_effect \<Rightarrow> http_request list" where
  "FileUpload_callback (OnFileSelect f) = handleFileSelect f"
| "FileUpload_callback (OnTextInput t) = handleTextInput t"
| "FileUpload_callback _ = []"

definition callbacks :: "fu_effect list \<Rightarrow> http_request list" where
  "callbacks effs = concat (map FileUpload_callback effs)"

text \<open>
  The handler of each event, wired as in the JSX. A click on the drop zone clicks the
  hidden file input, which sends nothing by itself.
\<close>

fun handle :: "client_state \<Rightarrow> dom_event \<Rightarrow> client_state \<times> http_request list" where
  "handle s (Click TabPdfButton) = (s\<lparr>fu := (fu s)\<lparr>activeTab := Pdf\<rparr>\<rparr>, [])"
| "handle s (Click TabTextButton) = (s\<lparr>fu := (fu s)\<lparr>activeTab := Text\<rparr>\<rparr>, [])"
| "handle s (Click SubmitTextButton) = (s, callbacks (handleTextSubmit (fu s)))"
| "handle s (Click GenerateSummaryButton) = (s, handleGenerateSummary (app s))"
| "handle s (Click GenerateFlashcardsButton) =
     (s, handleGenerateFlashcards (app s) (numCards s))"
| "handle s (Click ClearErrorButton) = (s\<lparr>app := clearError (app s)\<rparr>, [])"
| "handle s (Click _) = (s, [])"
| "handle s (Drop files) =
     (case handleDrop files (fu s) of (f', effs) \<Rightarrow> (s\<lparr>fu := f'\<rparr>, callbacks effs))"
| "handle s (Change_files files) =
     (case handleFileChange files (fu s) of (f', effs) \<Rightarrow> (s\<lparr>fu := f'\<rparr>, callbacks effs))"
| "handle s (Input_text t) = (s\<lparr>fu := (fu s)\<lparr>textInput := t\<rparr>\<rparr>, [])"
| "handle s (Change_select v) = (s\<lparr>numCards := parseInt v\<rparr>, [])"

definition dispatch ::
  "mutations \<Rightarrow> client_state \<Rightarrow> dom_event \<Rightarrow> client_state \<times> http_request list" where
  "dispatch m s ev = (if delivered (App_render m s) ev then handle s ev else (s, []))"

text \<open>The settlement of a request runs the matching callback of its mutation.\<close>

datatype settlement =
    Upload_ok upload_data
  | Upload_failed axios_error
  | Summary_ok summary_data
  | Summary_failed axios_error
  | Flashcards_ok flashcards_data
  | Flashcards_failed axios_error

fun settle :: "settlement \<Rightarrow> app_state \<Rightarrow> app_state" where
  "settle (Upload_ok d) = uploadMutation_onSuccess d"
| "settle (Upload_failed e) = uploadMutation_onError e"
| "settle (Summary_ok d) = summaryMutation_onSuccess d"
| "settle (Summary_failed e) = summaryMutation_onError e"
| "settle (Flashcards_ok d) = flashcardsMutation_onSuccess d"
| "settle (Flashcards_failed e) = flashcardsMutation_onError e"

datatype event = User mutations dom_event | Settled settlement

fun step :: "client_state \<Rightarrow> event \<Rightarrow> client_state \<times> http_request list" where
  "step s (User m ev) = dispatch m s ev"
| "step s (Settled r) = (s\<lparr>app := settle r (app s)\<rparr>, [])"

text \<open>A run of the client: the state after a list of events and the requests sent.\<close>

fun run :: "client_state \<Rightarrow> event list \<Rightarrow> client_state \<times> http_request list" where
  "run s [] = (s, [])"
| "run s (e # es) =
     (case step s e of (s', rs) \<Rightarrow> (case run s' es of (s'', rs') \<Rightarrow> (s'', rs @ rs')))"

text \<open>
  The selector only lets the user choose one of the options it renders: a change event of
  the selector carries the value of one of them.
\<close>

fun well_formed :: "event \<Rightarrow> bool" where
  "well_formed (User m (Change_select v)) = (v \<in> set option_values)"
| "well_formed _ = True"

section \<open>The flashcards endpoint\<close>

text \<open>
  Modelled from the spec: the handler of \<open>POST /flashcards\<close> is in the backend's
  \<open>main.py\<close>, which is not among the sources. The specification describes it: the
  flashcard adapter, given the text and the requested card count, returns a list of
  question and answer pairs or fails; the endpoint returns either a complete flashcard set,
  whose \<open>total_count\<close> is the length of the list, or an error with a detail message.
\<close>

record service_error =
  status :: nat
  err_detail :: js_string

definition flashcards_endpoint ::
  "(js_string \<Rightarrow> int \<Rightarrow> service_error + flashcard list) \<Rightarrow> js_string \<Rightarrow> int \<Rightarrow>
     service_error + flashcards_data" where
  "flashcards_endpoint adapter t num_cards =
     (case adapter t num_cards of
        Inl e \<Rightarrow> Inl e
      | Inr cards \<Rightarrow> Inr \<lparr>fd_flashcards = cards, total_count = int (length cards)\<rparr>)"

section \<open>Predicates and sample inputs used in the statements\<close>

text \<open>A card count the selector can hold: an integer from 3 to 10.\<close>

definition numCards_ok :: "js_number \<Rightarrow> bool" where
  "numCards_ok n = (case n of NaN \<Rightarrow> False | Num k \<Rightarrow> 3 \<le> k \<and> k \<le> 10)"

text \<open>The URLs the client sends requests to while \<open>numCards\<close> is such a count.\<close>

definition known_url :: "js_string \<Rightarrow> bool" where
  "known_url u \<longleftrightarrow>
     u = lit ''/upload'' \<or> u = lit ''/summarize'' \<or>
     (\<exists>k. 3 \<le> k \<and> k \<le> 10 \<and> u = lit ''/flashcards?num_cards='' @ number_toString (Num k))"

definition idle :: mutations where
  "idle = \<lparr>upload_isLoading = False, summary_isLoading = False, flashcards_isLoading = False\<rparr>"

definition uploading :: mutations where
  "uploading = \<lparr>upload_isLoading = True, summary_isLoading = False, flashcards_isLoading = False\<rparr>"

definition notes_pdf :: js_file where
  "notes_pdf = \<lparr>file_name = lit ''notes.pdf'', file_type = lit ''application/pdf''\<rparr>"

definition photo_png :: js_file where
  "photo_png = \<lparr>file_name = lit ''photo.png'', file_type = lit ''image/png''\<rparr>"

text \<open>A rejected request whose body is \<open>{"detail": ""}\<close>, and one that got no response.\<close>

definition empty_detail_error :: axios_error where
  "empty_detail_error = \<lparr>response = Some \<lparr>data = Some \<lparr>detail = Some []\<rparr>\<rparr>\<rparr>"

definition network_error :: axios_error where
  "network_error = \<lparr>response = None\<rparr>"

definition detail_error :: "js_string \<Rightarrow> axios_error" where
  "detail_error d = \<lparr>response = Some \<lparr>data = Some \<lparr>detail = Some d\<rparr>\<rparr>\<rparr>"

text \<open>A client whose text area holds only white space, with the text tab open.\<close>

definition blank_state :: client_state where
  "blank_state =
     client_init\<lparr>fu := \<lparr>activeTab = Text, textInput = [0x20, 0x0A, 0x09, 0xA0],
                          selectedFile = None\<rparr>\<rparr>"

text \<open>An upload succeeds, the user selects seven cards and asks for flashcards.\<close>

definition sample_events :: "event list" where
  "sample_events =
     [Settled (Upload_ok \<lparr>ud_text = lit ''abc''\<rparr>),
      User idle (Change_select (lit ''7'')),
      User idle (Click GenerateFlashcardsButton)]"

section \<open>Basic facts\<close>

lemmas callback_defs =
  uploadMutation_onSuccess_def uploadMutation_onError_def
  summaryMutation_onSuccess_def summaryMutation_onError_def
  flashcardsMutation_onSuccess_def flashcardsMutation_onError_def

lemmas render_defs =
  App_render_def FileUpload_render_def SummarySection_render_def FlashcardsSection_render_def

lemma lit_nonempty: "lit (c # cs) \<noteq> []"
  by (simp add: lit_def)

lemma banner_error: "msg \<noteq> [] \<Longrightarrow> banner (s\<lparr>error := Some msg\<rparr>) = Some msg"
  by (simp add: banner_def)

text \<open>With a non-empty default, \<open>a || b\<close> is never the empty string.\<close>

lemma or_else_nonempty: "b \<noteq> [] \<Longrightarrow> or_else a b \<noteq> []"
  by (simp add: or_else_def split: option.splits)

text \<open>A string trims to the empty string exactly when it consists of white space only.\<close>

lemma trim_Nil_iff: "trim s = [] \<longleftrightarrow> (\<forall>c \<in> set s. is_ws c)"
proof
  assume "trim s = []"
  then have "dropWhile is_ws (rev (dropWhile is_ws s)) = []"
    by (simp add: trim_def)
  then have all: "\<forall>c \<in> set (dropWhile is_ws s). is_ws c"
    by (simp add: dropWhile_eq_Nil_conv)
  have "dropWhile is_ws s = []"
  proof (rule ccontr)
    assume ne: "dropWhile is_ws s \<noteq> []"
    then have "\<not> is_ws (hd (dropWhile is_ws s))"
      by (rule hd_dropWhile)
    moreover have "hd (dropWhile is_ws s) \<in> set (dropWhile is_ws s)"
      using ne by simp
    ultimately show False
      using all by blast
  qed
  then show "\<forall>c \<in> set s. is_ws c"
    by (simp add: dropWhile_eq_Nil_conv)
next
  assume "\<forall>c \<in> set s. is_ws c"
  then have d: "dropWhile is_ws s = []"
    by (simp only: dropWhile_eq_Nil_conv)
  show "trim s = []"
    unfolding trim_def d by simp
qed

text \<open>The callbacks of \<open>FileUpload\<close> only ever send uploads.\<close>

lemma callbacks_upload: "r \<in> set (callbacks effs) \<Longrightarrow> req_url r = lit ''/upload''"
proof (induction effs)
  case Nil
  then show ?case by (simp add: callbacks_def)
next
  case (Cons x effs)
  then show ?case
    by (cases x)
      (auto simp: callbacks_def handleFileSelect_def handleTextInput_def uploadContent_def)
qed

lemma path_upload:
  "url_path (lit ''/upload'') \<noteq> lit ''/flashcards'' \<and>
   url_path (lit ''/upload'') \<noteq> lit ''/summarize''"
  by (simp add: url_path_def lit_def)

lemma path_summarize: "url_path (lit ''/summarize'') \<noteq> lit ''/flashcards''"
  by (simp add: url_path_def lit_def)

text \<open>Dropping a PDF on the fresh client while nothing is loading sends one upload.\<close>

lemma drop_pdf_init:
  "dispatch idle client_init (Drop [notes_pdf]) =
     (client_init\<lparr>fu := FileUpload_init\<lparr>selectedFile := Some notes_pdf\<rparr>\<rparr>,
      [uploadContent (Some notes_pdf) None])"
  by (simp add: dispatch_def delivered_def render_defs client_init_def FileUpload_init_def
      handleDrop_def first_file_def notes_pdf_def callbacks_def handleFileSelect_def
      app_init_def banner_def idle_def)

section \<open>The state transitions of \<open>App\<close>\<close>


text \<open>
  C3. When a request fails, whichever of the three it is, the callback sets the error to a
  message that is not empty, so the banner is shown, and changes nothing else: the
  extracted text, the summary and the flashcards stay as they are. The client sends no
  request in response, so nothing is retried, and no other part of the client state
  changes.
\<close>

theorem failure_sets_only_error:
  "(\<exists>msg. msg \<noteq> [] \<and> uploadMutation_onError e s = s\<lparr>error := Some msg\<rparr>) \<and>
   (\<exists>msg. msg \<noteq> [] \<and> summaryMutation_onError e s = s\<lparr>error := Some msg\<rparr>) \<and>
   (\<exists>msg. msg \<noteq> [] \<and> flashcardsMutation_onError e s = s\<lparr>error := Some msg\<rparr>) \<and>
   banner (uploadMutation_onError e s) \<noteq> None \<and>
   banner (summaryMutation_onError e s) \<noteq> None \<and>
   banner (flashcardsMutation_onError e s) \<noteq> None \<and>
   extractedText (uploadMutation_onError e s) = extractedText s \<and>
   summary (uploadMutation_onError e s) = summary s \<and>
   flashcards (uploadMutation_onError e s) = flashcards s \<and>
   extractedText (summaryMutation_onError e s) = extractedText s \<and>
   summary (summaryMutation_onError e s) = summary s \<and>
   flashcards (summaryMutation_onError e s) = flashcards s \<and>
   extractedText (flashcardsMutation_onError e s) = extractedText s \<and>
   summary (flashcardsMutation_onError e s) = summary s \<and>
   flashcards (flashcardsMutation_onError e s) = flashcards s \<and>
   step c (Settled (Upload_failed e)) = (c\<lparr>app := uploadMutation_onError e (app c)\<rparr>, []) \<and>
   step c (Settled (Summary_failed e)) = (c\<lparr>app := summaryMutation_onError e (app c)\<rparr>, []) \<and>
   step c (Settled (Flashcards_failed e)) =
     (c\<lparr>app := flashcardsMutation_onError e (app c)\<rparr>, []) \<and>
   banner (app (fst (step c (Settled (Upload_failed e))))) \<noteq> None \<and>
   banner (app (fst (step c (Settled (Summary_failed e))))) \<noteq> None \<and>
   banner (app (fst (step c (Settled (Flashcards_failed e))))) \<noteq> None"
proof -
  have u: "or_else (response_data_detail e) (lit ''Failed to process content'') \<noteq> []"
    by (rule or_else_nonempty) (rule lit_nonempty)
  have m: "or_else (response_data_detail e) (lit ''Failed to generate summary'') \<noteq> []"
    by (rule or_else_nonempty) (rule lit_nonempty)
  have f: "or_else (response_data_detail e) (lit ''Failed to generate flashcards'') \<noteq> []"
    by (rule or_else_nonempty) (rule lit_nonempty)
  have "\<exists>msg. msg \<noteq> [] \<and> uploadMutation_onError e s = s\<lparr>error := Some msg\<rparr>"
    unfolding uploadMutation_onError_def using u by blast
  moreover
  have "\<exists>msg. msg \<noteq> [] \<and> summaryMutation_onError e s = s\<lparr>error := Some msg\<rparr>"
    unfolding summaryMutation_onError_def using m by blast
  moreover
  have "\<exists>msg. msg \<noteq> [] \<and> flashcardsMutation_onError e s = s\<lparr>error := Some msg\<rparr>"
    unfolding flashcardsMutation_onError_def using f by blast
  moreover
  have "banner (uploadMutation_onError e t) \<noteq> None \<and>
        banner (summaryMutation_onError e t) \<noteq> None \<and>
        banner (flashcardsMutation_onError e t) \<noteq> None" for t
    unfolding callback_defs using u m f by (simp add: banner_error)
  ultimately show ?thesis
    by (simp add: callback_defs)
qed

text \<open>
  C6. When a summary request succeeds, the client sets the summary and leaves the
  flashcards and the extracted text as they are; when a flashcards request succeeds, it
  sets the flashcards and leaves the summary and the extracted text as they are. (Both
  also clear the error.) Either settlement sends no request and changes no other part of
  the client state.
\<close>

theorem success_populates_own_branch:
  "summary (summaryMutation_onSuccess d s) = Some d \<and>
   flashcards (summaryMutation_onSuccess d s) = flashcards s \<and>
   extractedText (summaryMutation_onSuccess d s) = extractedText s \<and>
   flashcards (flashcardsMutation_onSuccess d' s) = Some d' \<and>
   summary (flashcardsMutation_onSuccess d' s) = summary s \<and>
   extractedText (flashcardsMutation_onSuccess d' s) = extractedText s \<and>
   step c (Settled (Summary_ok d)) = (c\<lparr>app := summaryMutation_onSuccess d (app c)\<rparr>, []) \<and>
   step c (Settled (Flashcards_ok d')) =
     (c\<lparr>app := flashcardsMutation_onSuccess d' (app c)\<rparr>, []) \<and>
   summary (app (fst (step c (Settled (Summary_ok d))))) = Some d \<and>
   flashcards (app (fst (step c (Settled (Summary_ok d))))) = flashcards (app c) \<and>
   extractedText (app (fst (step c (Settled (Summary_ok d))))) = extractedText (app c) \<and>
   flashcards (app (fst (step c (Settled (Flashcards_ok d'))))) = Some d' \<and>
   summary (app (fst (step c (Settled (Flashcards_ok d'))))) = summary (app c) \<and>
   extractedText (app (fst (step c (Settled (Flashcards_ok d'))))) = extractedText (app c)"
  by (simp add: callback_defs)

section \<open>The error banner\<close>

text \<open>
  C5, as stated, fails: a body \<open>{"detail": ""}\<close> has a detail field, yet the banner shows
  the generic message, because \<open>||\<close> takes the empty string for absent.
\<close>

theorem empty_detail_counterexample:
  "response_data_detail empty_detail_error = Some [] \<and>
   banner (uploadMutation_onError empty_detail_error app_init) =
     Some (lit ''Failed to process content'') \<and>
   banner (uploadMutation_onError empty_detail_error app_init) \<noteq> Some []"
  by (simp add: response_data_detail_def empty_detail_error_def uploadMutation_onError_def
      or_else_def banner_def lit_def)

text \<open>
  C5, amended. When a request fails, the banner shows the detail string of the response
  body verbatim if the field is present and not the empty string; if the field is absent
  (or there is no response or no body) or is the empty string, the banner shows the generic
  message of the action that failed.
\<close>

theorem error_banner_shows_detail_or_fallback:
  "(response_data_detail e = Some d \<and> d \<noteq> [] \<longrightarrow>
      banner (uploadMutation_onError e s) = Some d \<and>
      banner (summaryMutation_onError e s) = Some d \<and>
      banner (flashcardsMutation_onError e s) = Some d) \<and>
   (response_data_detail e = None \<or> response_data_detail e = Some [] \<longrightarrow>
      banner (uploadMutation_onError e s) = Some (lit ''Failed to process content'') \<and>
      banner (summaryMutation_onError e s) = Some (lit ''Failed to generate summary'') \<and>
      banner (flashcardsMutation_onError e s) = Some (lit ''Failed to generate flashcards''))"
  by (auto simp: callback_defs or_else_def banner_error lit_nonempty)

theorem error_banner_shows_detail_or_fallback_witness:
  "response_data_detail (detail_error (lit ''Only PDF files are supported'')) =
     Some (lit ''Only PDF files are supported'') \<and>
   lit ''Only PDF files are supported'' \<noteq> [] \<and>
   banner (summaryMutation_onError (detail_error (lit ''Only PDF files are supported''))
             app_init) =
     Some (lit ''Only PDF files are supported'') \<and>
   response_data_detail network_error = None \<and>
   banner (summaryMutation_onError network_error app_init) =
     Some (lit ''Failed to generate summary'')"
  using error_banner_shows_detail_or_fallback
      [of "detail_error (lit ''Only PDF files are supported'')"
          "lit ''Only PDF files are supported''" app_init]
    error_banner_shows_detail_or_fallback [of network_error "[]" app_init]
  by (simp add: response_data_detail_def detail_error_def network_error_def lit_nonempty)

section \<open>The flashcard set\<close>

text \<open>
  C2. Whenever the flashcards endpoint answers with a flashcard set, its \<open>total_count\<close> is
  the length of its list of flashcards.
\<close>

theorem total_count_is_length:
  "flashcards_endpoint adapter t n = Inr r \<Longrightarrow> total_count r = int (length (fd_flashcards r))"
  by (auto simp: flashcards_endpoint_def split: sum.splits)

theorem total_count_is_length_witness:
  "flashcards_endpoint (\<lambda>t n. Inr [\<lparr>question = lit ''Q'', answer = lit ''A''\<rparr>])
     (lit ''text'') 5 =
     Inr \<lparr>fd_flashcards = [\<lparr>question = lit ''Q'', answer = lit ''A''\<rparr>], total_count = 1\<rparr> \<and>
   total_count \<lparr>fd_flashcards = [\<lparr>question = lit ''Q'', answer = lit ''A''\<rparr>], total_count = 1\<rparr> =
     int (length (fd_flashcards
       \<lparr>fd_flashcards = [\<lparr>question = lit ''Q'', answer = lit ''A''\<rparr>], total_count = 1\<rparr>))"
proof -
  have h: "flashcards_endpoint (\<lambda>t n. Inr [\<lparr>question = lit ''Q'', answer = lit ''A''\<rparr>])
      (lit ''text'') 5 =
     Inr \<lparr>fd_flashcards = [\<lparr>question = lit ''Q'', answer = lit ''A''\<rparr>], total_count = 1\<rparr>"
    by (simp add: flashcards_endpoint_def)
  from h total_count_is_length [OF h] show ?thesis by simp
qed

section \<open>Duplicate submissions\<close>

text \<open>
  While its request is outstanding, the file input, the submit button and the two generate
  buttons are disabled, so their events send nothing.
\<close>

lemma file_input_disabled_while_uploading:
  "upload_isLoading m \<Longrightarrow> dispatch m s (Change_files files) = (s, [])"
  by (simp add: dispatch_def delivered_def render_defs)

lemma submit_disabled_while_uploading:
  "upload_isLoading m \<Longrightarrow> dispatch m s (Click SubmitTextButton) = (s, [])"
  by (simp add: dispatch_def delivered_def render_defs)

lemma summary_button_disabled_while_loading:
  "summary_isLoading m \<Longrightarrow> dispatch m s (Click GenerateSummaryButton) = (s, [])"
  by (simp add: dispatch_def delivered_def render_defs)

lemma flashcards_button_disabled_while_loading:
  "flashcards_isLoading m \<Longrightarrow> dispatch m s (Click GenerateFlashcardsButton) = (s, [])"
  by (simp add: dispatch_def delivered_def render_defs)

text \<open>
  C4. The drop zone is not among them. A PDF is dropped and its upload is sent; while that
  upload is outstanding the file input is disabled, but a second drop is handled all the
  same and sends a second upload.
\<close>

theorem drop_while_uploading_sends_second_upload:
  "upload_isLoading uploading \<and>
   (FileInput, True) \<in> set (App_render uploading client_init) \<and>
   snd (run client_init [User idle (Drop [notes_pdf]), User uploading (Drop [notes_pdf])]) =
     [uploadContent (Some notes_pdf) None, uploadContent (Some notes_pdf) None]"
  by (simp add: drop_pdf_init uploading_def dispatch_def delivered_def render_defs
      client_init_def FileUpload_init_def handleDrop_def first_file_def notes_pdf_def
      callbacks_def handleFileSelect_def app_init_def banner_def)

section \<open>The card count\<close>

lemma parseInt_option_values: "map parseInt option_values = map Num select_options"
  by code_simp

lemma parseInt_option:
  assumes "v \<in> set option_values"
  shows "numCards_ok (parseInt v)"
proof -
  from assms have "parseInt v \<in> set (map parseInt option_values)"
    by simp
  then have "parseInt v \<in> set (map Num select_options)"
    by (simp only: parseInt_option_values)
  then show ?thesis
    by (auto simp: select_options_def numCards_ok_def)
qed

lemma options_3_to_10: "select_options = [3..10]"
  by (simp add: select_options_def upto_rec_numeral)

text \<open>The card count stays between 3 and 10 whatever happens.\<close>

lemma handle_numCards:
  "well_formed (User m ev) \<Longrightarrow> numCards_ok (numCards s) \<Longrightarrow>
     numCards_ok (numCards (fst (handle s ev)))"
proof (cases ev)
  case (Click c)
  then show "numCards_ok (numCards s) \<Longrightarrow> ?thesis" by (cases c) simp_all
next
  case (Change_select v)
  then show "well_formed (User m ev) \<Longrightarrow> ?thesis" by (simp add: parseInt_option)
qed (simp_all split: prod.splits)

lemma step_numCards:
  "well_formed e \<Longrightarrow> numCards_ok (numCards s) \<Longrightarrow> numCards_ok (numCards (fst (step s e)))"
  by (cases e) (simp_all add: dispatch_def handle_numCards)

text \<open>While it does, every request goes to one of the known URLs.\<close>

lemma handleGenerateFlashcards_url:
  assumes "numCards_ok n" and "r \<in> set (handleGenerateFlashcards a n)"
  shows "known_url (req_url r)"
proof -
  from assms(1) obtain k where k: "n = Num k" "3 \<le> k" "k \<le> 10"
    by (cases n) (simp_all add: numCards_ok_def)
  from assms(2) have "req_url r = lit ''/flashcards?num_cards='' @ number_toString (Num k)"
    by (simp add: handleGenerateFlashcards_def generateFlashcards_def k(1) split: if_splits)
  with k(2,3) show ?thesis
    unfolding known_url_def by blast
qed

lemma handleGenerateSummary_url:
  "r \<in> set (handleGenerateSummary a) \<Longrightarrow> known_url (req_url r)"
  by (simp add: handleGenerateSummary_def generateSummary_def known_url_def split: if_splits)

lemma callbacks_url: "r \<in> set (callbacks effs) \<Longrightarrow> known_url (req_url r)"
  by (simp add: known_url_def callbacks_upload)

lemma handle_requests:
  assumes "numCards_ok (numCards s)" and "r \<in> set (snd (handle s ev))"
  shows "known_url (req_url r)"
proof (cases ev)
  case (Click c)
  with assms show ?thesis
    by (cases c)
      (simp_all add: handleGenerateSummary_url handleGenerateFlashcards_url callbacks_url)
next
  case (Drop files)
  with assms(2) show ?thesis
    by (simp add: callbacks_url split: prod.splits)
next
  case (Change_files files)
  with assms(2) show ?thesis
    by (simp add: callbacks_url split: prod.splits)
next
  case (Input_text t)
  with assms(2) show ?thesis by simp
next
  case (Change_select v)
  with assms(2) show ?thesis by simp
qed

lemma step_requests:
  "numCards_ok (numCards s) \<Longrightarrow> r \<in> set (snd (step s e)) \<Longrightarrow> known_url (req_url r)"
  by (cases e) (auto simp: dispatch_def handle_requests split: if_splits)

lemma run_requests:
  "\<forall>e \<in> set es. well_formed e \<Longrightarrow> numCards_ok (numCards s) \<Longrightarrow>
     r \<in> set (snd (run s es)) \<Longrightarrow> known_url (req_url r)"
proof (induction es arbitrary: s)
  case Nil
  then show ?case by simp
next
  case (Cons e es)
  obtain s' rs where st: "step s e = (s', rs)" by (cases "step s e")
  obtain s'' rs' where rn: "run s' es = (s'', rs')" by (cases "run s' es")
  have ok': "numCards_ok (numCards s')"
    using step_numCards [of e s] Cons.prems st by simp
  from Cons.prems(3) st rn have "r \<in> set rs \<or> r \<in> set rs'" by simp
  then show ?case
  proof
    assume "r \<in> set rs"
    then show ?thesis using step_requests [of s r e] Cons.prems(2) st by simp
  next
    assume "r \<in> set rs'"
    then show ?thesis using Cons.IH [of s'] Cons.prems(1) ok' rn by simp
  qed
qed

text \<open>
  C7. The selector offers the values 3 to 10 and the card count starts at 5. In every run of
  the client from its initial state, in which the selector only reports values it offers,
  each request to \<open>/flashcards\<close> has the query \<open>num_cards=k\<close> for an integer \<open>k\<close> from 3
  to 10.
\<close>

theorem flashcards_requests_carry_3_to_10:
  assumes "\<forall>e \<in> set es. well_formed e"
    and "r \<in> set (snd (run client_init es))"
    and "url_path (req_url r) = lit ''/flashcards''"
  shows "(\<exists>k. 3 \<le> k \<and> k \<le> 10 \<and>
            req_url r = lit ''/flashcards?num_cards='' @ number_toString (Num k)) \<and>
         select_options = [3..10] \<and>
         numCards client_init = Num 5"
proof -
  have ok: "numCards_ok (numCards client_init)"
    by (simp add: client_init_def numCards_init_def numCards_ok_def)
  have "known_url (req_url r)"
    using run_requests [of es client_init r] assms(1,2) ok by simp
  with assms(3)
  have "\<exists>k. 3 \<le> k \<and> k \<le> 10 \<and>
          req_url r = lit ''/flashcards?num_cards='' @ number_toString (Num k)"
    unfolding known_url_def using path_upload path_summarize by metis
  then show ?thesis
    by (simp add: options_3_to_10 client_init_def numCards_init_def)
qed

lemma sample_events_well_formed: "\<forall>e \<in> set sample_events. well_formed e"
  by (simp add: sample_events_def option_values_def select_options_def lit_def
      nat_toString.simps digit_char_def)

lemma sample_events_requests:
  "snd (run client_init sample_events) = [generateFlashcards (lit ''abc'') (Some (Num 7))]"
  by code_simp

lemma sample_request_path:
  "url_path (req_url (generateFlashcards (lit ''abc'') (Some (Num 7)))) = lit ''/flashcards''"
  by code_simp

theorem flashcards_requests_carry_3_to_10_witness:
  "list_all well_formed sample_events \<and>
   generateFlashcards (lit ''abc'') (Some (Num 7)) \<in> set (snd (run client_init sample_events)) \<and>
   url_path (req_url (generateFlashcards (lit ''abc'') (Some (Num 7)))) = lit ''/flashcards'' \<and>
   (\<exists>k. 3 \<le> k \<and> k \<le> 10 \<and>
      req_url (generateFlashcards (lit ''abc'') (Some (Num 7))) =
        lit ''/flashcards?num_cards='' @ number_toString (Num k))"
proof -
  have m: "generateFlashcards (lit ''abc'') (Some (Num 7)) \<in>
           set (snd (run client_init sample_events))"
    by (simp only: sample_events_requests) simp
  have w: "list_all well_formed sample_events"
    using sample_events_well_formed by (simp only: list_all_iff)
  from flashcards_requests_carry_3_to_10 [OF sample_events_well_formed m sample_request_path]
    w m sample_request_path
  show ?thesis
    by blast
qed

section \<open>Guards of the user's actions\<close>

text \<open>
  C8. When the text area is empty or holds white space only, submitting sends no upload:
  the submit handler does nothing, no enabled submit button is rendered, and a click on the
  button leaves the client as it is and sends no request.
\<close>

theorem blank_text_is_not_submitted:
  assumes "\<forall>c \<in> set (textInput (fu s)). is_ws c"
  shows "handleTextSubmit (fu s) = [] \<and>
         (SubmitTextButton, False) \<notin> set (FileUpload_render isLoading (fu s)) \<and>
         handle s (Click SubmitTextButton) = (s, []) \<and>
         dispatch m s (Click SubmitTextButton) = (s, [])"
proof -
  from assms have t: "trim (textInput (fu s)) = []"
    by (simp only: trim_Nil_iff)
  show ?thesis
    by (simp add: t handleTextSubmit_def FileUpload_render_def callbacks_def dispatch_def)
qed

theorem blank_text_is_not_submitted_witness:
  "list_all is_ws (textInput (fu blank_state)) \<and>
   handleTextSubmit (fu blank_state) = [] \<and>
   (SubmitTextButton, True) \<in> set (FileUpload_render False (fu blank_state)) \<and>
   dispatch idle blank_state (Click SubmitTextButton) = (blank_state, [])"
proof -
  have h: "\<forall>c \<in> set (textInput (fu blank_state)). is_ws c"
    by (simp add: blank_state_def is_ws_def)
  have "(SubmitTextButton, True) \<in> set (FileUpload_render False (fu blank_state))"
    by (simp add: blank_state_def FileUpload_render_def trim_def is_ws_def)
  moreover have "list_all is_ws (textInput (fu blank_state))"
    using h by (simp only: list_all_iff)
  ultimately show ?thesis
    using blank_text_is_not_submitted [OF h, of False idle] by simp
qed

lemma handle_without_content:
  assumes "extractedText (app s) = []" and "r \<in> set (snd (handle s ev))"
  shows "req_url r = lit ''/upload''"
proof (cases ev)
  case (Click c)
  with assms show ?thesis
    by (cases c)
      (simp_all add: handleGenerateSummary_def handleGenerateFlashcards_def callbacks_upload)
next
  case (Drop files)
  with assms(2) show ?thesis
    by (simp add: callbacks_upload split: prod.splits)
next
  case (Change_files files)
  with assms(2) show ?thesis
    by (simp add: callbacks_upload split: prod.splits)
next
  case (Input_text t)
  with assms(2) show ?thesis by simp
next
  case (Change_select v)
  with assms(2) show ?thesis by simp
qed

lemma step_without_content:
  "extractedText (app s) = [] \<Longrightarrow> r \<in> set (snd (step s e)) \<Longrightarrow> req_url r = lit ''/upload''"
  by (cases e) (auto simp: dispatch_def handle_without_content split: if_splits)

text \<open>
  C9. While the extracted text is empty, the two generate handlers send nothing, the
  summary section and the flashcards section render no control, and no event whatever makes
  the client send a request to \<open>/summarize\<close> or to \<open>/flashcards\<close>.
\<close>

theorem no_generation_without_content:
  assumes "extractedText (app s) = []"
  shows "handleGenerateSummary (app s) = [] \<and>
         handleGenerateFlashcards (app s) n = [] \<and>
         SummarySection_render (extractedText (app s)) l = [] \<and>
         FlashcardsSection_render (extractedText (app s)) l' = [] \<and>
         (\<forall>r \<in> set (snd (step s e)).
            url_path (req_url r) \<noteq> lit ''/summarize'' \<and>
            url_path (req_url r) \<noteq> lit ''/flashcards'')"
proof -
  have "\<forall>r \<in> set (snd (step s e)).
          url_path (req_url r) \<noteq> lit ''/summarize'' \<and>
          url_path (req_url r) \<noteq> lit ''/flashcards''"
    using step_without_content [OF assms] path_upload by simp
  then show ?thesis
    using assms
    by (simp add: handleGenerateSummary_def handleGenerateFlashcards_def
        SummarySection_render_def FlashcardsSection_render_def)
qed

theorem no_generation_without_content_witness:
  "extractedText (app client_init) = [] \<and>
   snd (step client_init (User idle (Drop [notes_pdf]))) =
     [uploadContent (Some notes_pdf) None] \<and>
   url_path (req_url (uploadContent (Some notes_pdf) None)) \<noteq> lit ''/summarize'' \<and>
   url_path (req_url (uploadContent (Some notes_pdf) None)) \<noteq> lit ''/flashcards''"
proof -
  have h: "extractedText (app client_init) = []"
    by (simp add: client_init_def app_init_def)
  from h no_generation_without_content [OF h, of _ _ _ "User idle (Drop [notes_pdf])"]
  show ?thesis
    by (simp add: drop_pdf_init)
qed

lemma non_pdf_change:
  "first_file files = Some f \<Longrightarrow> file_type f \<noteq> lit ''application/pdf'' \<Longrightarrow>
     handleFileChange files s = (s, [Alert (lit ''Please select a PDF file''), ResetInputValue])"
  by (simp add: handleFileChange_def)

lemma non_pdf_drop:
  "first_file files = Some f \<Longrightarrow> file_type f \<noteq> lit ''application/pdf'' \<Longrightarrow>
     handleDrop files s = (s, [PreventDefault, Alert (lit ''Please drop a PDF file'')])"
  by (simp add: handleDrop_def)

lemma select_change:
  "OnFileSelect g \<in> set (snd (handleFileChange files s)) \<Longrightarrow>
     first_file files = Some g \<and> file_type g = lit ''application/pdf''"
  by (cases "first_file files") (simp_all add: handleFileChange_def split: if_splits)

lemma select_drop:
  "OnFileSelect g \<in> set (snd (handleDrop files s)) \<Longrightarrow>
     first_file files = Some g \<and> file_type g = lit ''application/pdf''"
  by (cases "first_file files") (simp_all add: handleDrop_def split: if_splits)

text \<open>
  C10. When the file chosen or dropped is not of type \<open>application/pdf\<close>, both handlers
  alert the user, keep the component's state and do not call \<open>onFileSelect\<close>, so no request
  is sent. Conversely, a file that either handler passes to \<open>onFileSelect\<close> is the first
  file of the list and has type \<open>application/pdf\<close>.
\<close>

theorem non_pdf_is_not_forwarded:
  "(first_file files = Some f \<and> file_type f \<noteq> lit ''application/pdf'' \<longrightarrow>
      handleFileChange files s =
        (s, [Alert (lit ''Please select a PDF file''), ResetInputValue]) \<and>
      handleDrop files s = (s, [PreventDefault, Alert (lit ''Please drop a PDF file'')]) \<and>
      snd (handle c (Change_files files)) = [] \<and>
      snd (handle c (Drop files)) = []) \<and>
   (OnFileSelect g \<in> set (snd (handleFileChange files s)) \<or>
    OnFileSelect g \<in> set (snd (handleDrop files s)) \<longrightarrow>
      first_file files = Some g \<and> file_type g = lit ''application/pdf'')"
proof (intro conjI impI)
  assume a: "first_file files = Some f \<and> file_type f \<noteq> lit ''application/pdf''"
  then show "handleFileChange files s =
      (s, [Alert (lit ''Please select a PDF file''), ResetInputValue])"
    by (simp add: non_pdf_change)
  from a show "handleDrop files s = (s, [PreventDefault, Alert (lit ''Please drop a PDF file'')])"
    by (simp add: non_pdf_drop)
  from a have "handleFileChange files (fu c) =
      (fu c, [Alert (lit ''Please select a PDF file''), ResetInputValue])"
    by (simp add: non_pdf_change)
  then show "snd (handle c (Change_files files)) = []"
    by (simp add: callbacks_def)
  from a have "handleDrop files (fu c) =
      (fu c, [PreventDefault, Alert (lit ''Please drop a PDF file'')])"
    by (simp add: non_pdf_drop)
  then show "snd (handle c (Drop files)) = []"
    by (simp add: callbacks_def)
next
  assume "OnFileSelect g \<in> set (snd (handleFileChange files s)) \<or>
    OnFileSelect g \<in> set (snd (handleDrop files s))"
  then show "first_file files = Some g" and "file_type g = lit ''application/pdf''"
    using select_change [of g files s] select_drop [of g files s] by blast+
qed

theorem non_pdf_is_not_forwarded_witness:
  "first_file [photo_png] = Some photo_png \<and>
   file_type photo_png \<noteq> lit ''application/pdf'' \<and>
   handleFileChange [photo_png] FileUpload_init =
     (FileUpload_init, [Alert (lit ''Please select a PDF file''), ResetInputValue]) \<and>
   handleDrop [photo_png] FileUpload_init =
     (FileUpload_init, [PreventDefault, Alert (lit ''Please drop a PDF file'')]) \<and>
   OnFileSelect notes_pdf \<in> set (snd (handleDrop [notes_pdf] FileUpload_init)) \<and>
   file_type notes_pdf = lit ''application/pdf''"
proof -
  have a: "first_file [photo_png] = Some photo_png \<and>
           file_type photo_png \<noteq> lit ''application/pdf''"
    by (simp add: first_file_def photo_png_def lit_def)
  have b: "OnFileSelect notes_pdf \<in> set (snd (handleFileChange [notes_pdf] FileUpload_init)) \<or>
           OnFileSelect notes_pdf \<in> set (snd (handleDrop [notes_pdf] FileUpload_init))"
    by (simp add: handleDrop_def first_file_def notes_pdf_def)
  have b': "OnFileSelect notes_pdf \<in> set (snd (handleDrop [notes_pdf] FileUpload_init))"
    by (simp add: handleDrop_def first_file_def notes_pdf_def)
  note t1 = non_pdf_is_not_forwarded
      [of "[photo_png]" photo_png FileUpload_init client_init notes_pdf,
        THEN conjunct1, rule_format, OF a]
  note t2 = non_pdf_is_not_forwarded
      [of "[notes_pdf]" notes_pdf FileUpload_init client_init notes_pdf,
        THEN conjunct2, rule_format, OF b]
  from a b' t1 t2 show ?thesis
    by blast
qed

end
